theory Spec2Isabelle
  imports Main
begin

section \<open>The pattern combinators of Mach7 (patterns/combinators.hpp)\<close>

subsection \<open>Patterns\<close>

text \<open>
  What the compiler does with the templates is modelled as a computation that either
  yields a value or is rejected. A failed \<^verbatim>\<open>static_assert\<close> carries its message.
  \<open>Substitution_failure\<close> is a name that is not declared: the overload that
  \<^verbatim>\<open>enable_if\<close> removes, and the member \<^verbatim>\<open>type\<close> of a type function that is a
  complete class without such a member (as one that derives from \<^verbatim>\<open>enable_if\<close> is).
  It is an error only where the name is asked for. \<open>Missing_type\<close> is the error of a
  class whose body asks for such a name through \<^verbatim>\<open>typename ...::type\<close>: like a failed
  assertion, it makes the class that is being instantiated ill-formed.
\<close>

datatype error = Static_assert string | Substitution_failure | Missing_type

text \<open>
  A pattern class that is not defined in combinators.hpp (the primitive patterns of the
  library) is given by the two members that the Pattern concept requires: the type function
  \<^verbatim>\<open>accepted_type_for<S>\<close> and the application operator. Types of the program are the
  values of \<open>'t\<close>, subjects the values of \<open>'s\<close>, and \<open>'d\<close> is the data an object of the
  class holds. The application operator of such a class is not under the control of the
  combinators: it may write to the object's own (mutable) members and to the subject, so it
  returns both next to its boolean.
\<close>

record ('s, 'd, 't) pattern_class =
  class_accepted_type_for :: "'t \<Rightarrow> error + 't"
  class_invoke :: "'d \<Rightarrow> 's \<Rightarrow> bool \<times> 'd \<times> 's"

text \<open>
  The three combinators own their argument patterns by value, in the members
  \<^verbatim>\<open>m_p1\<close> and \<^verbatim>\<open>m_p2\<close>, so a pattern expression is a tree.

  Modelled from the spec: the equality pattern \<open>Value\<close>, into which the value-to-pattern
  adapter of primitive.hpp (not part of the sources at hand) lifts a plain value. It wraps
  the value and accepts a subject equal to it. The spec does not give its type function,
  which is therefore a component of the node.
\<close>

datatype ('s, 'd, 't) pattern =
    Primitive "('s, 'd, 't) pattern_class" 'd
  | Value "'t \<Rightarrow> error + 't" 's
  | Conjunction (m_p1: "('s, 'd, 't) pattern") (m_p2: "('s, 'd, 't) pattern")
  | Disjunction (m_p1: "('s, 'd, 't) pattern") (m_p2: "('s, 'd, 't) pattern")
  | Negation (m_p1: "('s, 'd, 't) pattern")

subsection \<open>The type function \<^verbatim>\<open>accepted_type_for\<close>\<close>

text \<open>
  \<open>accepted_type_for p S\<close> is what \<^verbatim>\<open>P::accepted_type_for<S>::type\<close> names, for
  \<open>P\<close> the class of \<open>p\<close>.

  Conjunction and disjunction name the accepted types of both arguments in their body,
  assert that they are the same and yield the type of the first: an argument without a
  member \<^verbatim>\<open>type\<close>, an argument whose type function is ill-formed and a failed assertion
  all make the type function of the combinator ill-formed.

  Negation derives from the type function of its argument, which has to be a complete
  class for that, so that it is ill-formed where that of the argument is; and it declares
  \<^verbatim>\<open>typedef S type\<close> itself, which hides the member of the base class and does not need
  the base class to have one.
\<close>

fun in_class_body :: "error \<Rightarrow> error" where
  "in_class_body Substitution_failure = Missing_type"
| "in_class_body (Static_assert m) = Static_assert m"
| "in_class_body Missing_type = Missing_type"

fun accepted_type_for :: "('s, 'd, 't) pattern \<Rightarrow> 't \<Rightarrow> error + 't" where
  "accepted_type_for (Primitive c d) S = class_accepted_type_for c S"
| "accepted_type_for (Value acc v) S = acc S"
| "accepted_type_for (Conjunction p1 p2) S =
     (case accepted_type_for p1 S of
        Inl e \<Rightarrow> Inl (in_class_body e)
      | Inr t1 \<Rightarrow>
          (case accepted_type_for p2 S of
             Inl e \<Rightarrow> Inl (in_class_body e)
           | Inr t2 \<Rightarrow>
               if t1 = t2 then Inr t1
               else Inl (Static_assert
                 ''The type accepted by patterns in conjunction must be the same'')))"
| "accepted_type_for (Disjunction p1 p2) S =
     (case accepted_type_for p1 S of
        Inl e \<Rightarrow> Inl (in_class_body e)
      | Inr t1 \<Rightarrow>
          (case accepted_type_for p2 S of
             Inl e \<Rightarrow> Inl (in_class_body e)
           | Inr t2 \<Rightarrow>
               if t1 = t2 then Inr t1
               else Inl (Static_assert
                 ''The type accepted by patterns in disjunction must be the same'')))"
| "accepted_type_for (Negation p1) S =
     (case accepted_type_for p1 S of
        Inl Substitution_failure \<Rightarrow> Inr S
      | Inl (Static_assert m) \<Rightarrow> Inl (Static_assert m)
      | Inl Missing_type \<Rightarrow> Inl Missing_type
      | Inr t1 \<Rightarrow> Inr S)"

subsection \<open>The application operator\<close>

text \<open>
  Applying a pattern to a subject yields its boolean, and, since the arguments may have
  effects, the pattern object and the subject as they are afterwards. The model also keeps
  the list of the applications of members that took place, in the order in which they took
  place: an application is named by the path of members that leads to the pattern applied,
  from the combinator on which the operator was called.
\<close>

datatype member = M_p1 | M_p2

record ('s, 'd, 't) outcome =
  result :: bool
  self :: "('s, 'd, 't) pattern"
  subject :: 's
  calls :: "member list list"

definition enter :: "member \<Rightarrow> ('s, 'd, 't) outcome \<Rightarrow> member list list" where
  "enter m out = [m] # map ((#) m) (calls out)"

text \<open>
  \<^verbatim>\<open>m_p1(subject) && m_p2(subject)\<close>, \<^verbatim>\<open>m_p1(subject) || m_p2(subject)\<close> and
  \<^verbatim>\<open>!m_p1(subject)\<close>: the built-in operators evaluate their left operand first and the
  right one only when the left one has not decided the result.
\<close>

fun invoke :: "('s, 'd, 't) pattern \<Rightarrow> 's \<Rightarrow> ('s, 'd, 't) outcome" where
  "invoke (Primitive c d) s =
     (case class_invoke c d s of
        (r, d', s') \<Rightarrow> \<lparr>result = r, self = Primitive c d', subject = s', calls = []\<rparr>)"
| "invoke (Value acc v) s =
     \<lparr>result = (v = s), self = Value acc v, subject = s, calls = []\<rparr>"
| "invoke (Conjunction p1 p2) s =
     (let o1 = invoke p1 s in
      if result o1 then
        (let o2 = invoke p2 (subject o1) in
         \<lparr>result = result o2, self = Conjunction (self o1) (self o2),
          subject = subject o2, calls = enter M_p1 o1 @ enter M_p2 o2\<rparr>)
      else
        \<lparr>result = False, self = Conjunction (self o1) p2,
         subject = subject o1, calls = enter M_p1 o1\<rparr>)"
| "invoke (Disjunction p1 p2) s =
     (let o1 = invoke p1 s in
      if result o1 then
        \<lparr>result = True, self = Disjunction (self o1) p2,
         subject = subject o1, calls = enter M_p1 o1\<rparr>
      else
        (let o2 = invoke p2 (subject o1) in
         \<lparr>result = result o2, self = Disjunction (self o1) (self o2),
          subject = subject o2, calls = enter M_p1 o1 @ enter M_p2 o2\<rparr>))"
| "invoke (Negation p1) s =
     (let o1 = invoke p1 s in
      \<lparr>result = \<not> result o1, self = Negation (self o1),
       subject = subject o1, calls = enter M_p1 o1\<rparr>)"

subsection \<open>Construction\<close>

text \<open>
  An operand of a composition operator is an expression of any type: a pattern, or a plain
  value. The combinators specialise \<^verbatim>\<open>is_pattern_\<close> to true for themselves.

  Modelled from the spec: \<^verbatim>\<open>is_pattern\<close>, \<^verbatim>\<open>either_is_pattern\<close> and the
  adapter \<^verbatim>\<open>filter\<close> belong to primitive.hpp, which is not part of the sources at hand.
  An operand that satisfies the Pattern capability is used unchanged; an operand that does
  not is normalised into an equality pattern wrapping that value; the operators are usable
  when at least one operand satisfies the Pattern capability. The type function of the
  equality pattern, on which the spec is silent, is the parameter \<open>acc\<close>.
\<close>

datatype ('s, 'd, 't) operand = Pattern "('s, 'd, 't) pattern" | Plain 's

fun is_pattern :: "('s, 'd, 't) operand \<Rightarrow> bool" where
  "is_pattern (Pattern p) = True"
| "is_pattern (Plain v) = False"

definition either_is_pattern :: "('s, 'd, 't) operand \<Rightarrow> ('s, 'd, 't) operand \<Rightarrow> bool" where
  "either_is_pattern p1 p2 = (is_pattern p1 \<or> is_pattern p2)"

fun filter_op :: "('t \<Rightarrow> error + 't) \<Rightarrow> ('s, 'd, 't) operand \<Rightarrow> ('s, 'd, 't) pattern" where
  "filter_op acc (Pattern p) = p"
| "filter_op acc (Plain v) = Value acc v"

text \<open>
  The operators \<^verbatim>\<open>&&\<close>, \<^verbatim>\<open>||\<close> and \<^verbatim>\<open>!\<close> of the global namespace. The binary ones
  take part in overload resolution when either operand is a pattern, the unary one when its
  operand is. They instantiate the combinator over the classes of the adapter's results and
  construct it from these results. The results of the adapter are patterns, so the
  assertions of the combinator on its arguments (lines 26, 27, 66, 67, 107) hold, and they
  are temporaries, from which the constructors of lines 30, 70 and 110 move the members.
  The constructors of lines 29, 69 and 109, which copy their arguments, are not used by the
  operators and are not modelled.
\<close>

definition operator_and ::
  "('t \<Rightarrow> error + 't) \<Rightarrow> ('s, 'd, 't) operand \<Rightarrow> ('s, 'd, 't) operand \<Rightarrow> error + ('s, 'd, 't) pattern" where
  "operator_and acc p1 p2 =
     (if either_is_pattern p1 p2
      then Inr (Conjunction (filter_op acc p1) (filter_op acc p2))
      else Inl Substitution_failure)"

definition operator_or ::
  "('t \<Rightarrow> error + 't) \<Rightarrow> ('s, 'd, 't) operand \<Rightarrow> ('s, 'd, 't) operand \<Rightarrow> error + ('s, 'd, 't) pattern" where
  "operator_or acc p1 p2 =
     (if either_is_pattern p1 p2
      then Inr (Disjunction (filter_op acc p1) (filter_op acc p2))
      else Inl Substitution_failure)"

definition operator_not ::
  "('t \<Rightarrow> error + 't) \<Rightarrow> ('s, 'd, 't) operand \<Rightarrow> error + ('s, 'd, 't) pattern" where
  "operator_not acc p1 =
     (if is_pattern p1
      then Inr (Negation (filter_op acc p1))
      else Inl Substitution_failure)"

subsection \<open>Patterns that do not write\<close>

text \<open>
  \<open>read_only p s\<close>: the application operators of the patterns at the leaves of \<open>p\<close>,
  applied to \<open>s\<close>, leave their object and the subject as they are.
\<close>

fun read_only :: "('s, 'd, 't) pattern \<Rightarrow> 's \<Rightarrow> bool" where
  "read_only (Primitive c d) s = (snd (class_invoke c d s) = (d, s))"
| "read_only (Value acc v) s = True"
| "read_only (Conjunction p1 p2) s = (read_only p1 s \<and> read_only p2 s)"
| "read_only (Disjunction p1 p2) s = (read_only p1 s \<and> read_only p2 s)"
| "read_only (Negation p1) s = read_only p1 s"

subsection \<open>Leaf patterns that do not return\<close>

text \<open>
  The application operator of a primitive pattern may also fail to return: it may throw.
  The application operators of the combinators neither catch nor are declared
  \<^verbatim>\<open>noexcept\<close>, so an exception of a member leaves the combinator too, and what would
  have been evaluated after it is not. Which applications of primitive patterns throw is
  not in the sources at hand and is the parameter \<open>throws\<close>: \<open>throws c d s\<close> says that
  the operator of the class \<open>c\<close>, on an object holding \<open>d\<close> and on the subject \<open>s\<close>,
  throws. \<open>invoke_or_throw\<close> is the application operator with such leaves, \<open>None\<close>
  being the exception; \<open>invoke\<close> is the operator where nothing throws.
\<close>

fun invoke_or_throw ::
  "(('s, 'd, 't) pattern_class \<Rightarrow> 'd \<Rightarrow> 's \<Rightarrow> bool) \<Rightarrow> ('s, 'd, 't) pattern \<Rightarrow> 's
     \<Rightarrow> ('s, 'd, 't) outcome option" where
  "invoke_or_throw throws (Primitive c d) s =
     (if throws c d s then None else Some (invoke (Primitive c d) s))"
| "invoke_or_throw throws (Value acc v) s = Some (invoke (Value acc v) s)"
| "invoke_or_throw throws (Conjunction p1 p2) s =
     (case invoke_or_throw throws p1 s of
        None \<Rightarrow> None
      | Some o1 \<Rightarrow>
          if result o1 then
            (case invoke_or_throw throws p2 (subject o1) of
               None \<Rightarrow> None
             | Some o2 \<Rightarrow>
                 Some \<lparr>result = result o2, self = Conjunction (self o1) (self o2),
                       subject = subject o2, calls = enter M_p1 o1 @ enter M_p2 o2\<rparr>)
          else
            Some \<lparr>result = False, self = Conjunction (self o1) p2,
                  subject = subject o1, calls = enter M_p1 o1\<rparr>)"
| "invoke_or_throw throws (Disjunction p1 p2) s =
     (case invoke_or_throw throws p1 s of
        None \<Rightarrow> None
      | Some o1 \<Rightarrow>
          if result o1 then
            Some \<lparr>result = True, self = Disjunction (self o1) p2,
                  subject = subject o1, calls = enter M_p1 o1\<rparr>
          else
            (case invoke_or_throw throws p2 (subject o1) of
               None \<Rightarrow> None
             | Some o2 \<Rightarrow>
                 Some \<lparr>result = result o2, self = Disjunction (self o1) (self o2),
                       subject = subject o2, calls = enter M_p1 o1 @ enter M_p2 o2\<rparr>))"
| "invoke_or_throw throws (Negation p1) s =
     (case invoke_or_throw throws p1 s of
        None \<Rightarrow> None
      | Some o1 \<Rightarrow>
          Some \<lparr>result = \<not> result o1, self = Negation (self o1),
                subject = subject o1, calls = enter M_p1 o1\<rparr>)"

text \<open>
  \<open>leaves_return throws p\<close>: the application operators of the primitive patterns at
  the leaves of \<open>p\<close> return a boolean, whatever the subject.
\<close>

fun leaves_return ::
  "(('s, 'd, 't) pattern_class \<Rightarrow> 'd \<Rightarrow> 's \<Rightarrow> bool) \<Rightarrow> ('s, 'd, 't) pattern \<Rightarrow> bool" where
  "leaves_return throws (Primitive c d) = (\<forall>s. \<not> throws c d s)"
| "leaves_return throws (Value acc v) = True"
| "leaves_return throws (Conjunction p1 p2) =
     (leaves_return throws p1 \<and> leaves_return throws p2)"
| "leaves_return throws (Disjunction p1 p2) =
     (leaves_return throws p1 \<and> leaves_return throws p2)"
| "leaves_return throws (Negation p1) = leaves_return throws p1"

subsection \<open>Some primitive patterns over the integers\<close>

text \<open>
  The two predicates of the spec's example scenario, which accept the subject type as it
  is; a pattern that accepts \<^verbatim>\<open>double\<close> whatever the subject type; and a pattern that
  counts its applications in its own member.
\<close>

definition is_even :: "(int, nat, string) pattern" where
  "is_even = Primitive
     \<lparr>class_accepted_type_for = Inr, class_invoke = (\<lambda>d s. (s mod 2 = 0, d, s))\<rparr> 0"

definition is_positive :: "(int, nat, string) pattern" where
  "is_positive = Primitive
     \<lparr>class_accepted_type_for = Inr, class_invoke = (\<lambda>d s. (0 < s, d, s))\<rparr> 0"

definition as_double :: "(int, nat, string) pattern" where
  "as_double = Primitive
     \<lparr>class_accepted_type_for = (\<lambda>S. Inr ''double''),
      class_invoke = (\<lambda>d s. (True, d, s))\<rparr> 0"

definition counting :: "nat \<Rightarrow> (int, nat, string) pattern" where
  "counting n = Primitive
     \<lparr>class_accepted_type_for = Inr, class_invoke = (\<lambda>d s. (True, Suc d, s))\<rparr> n"

section \<open>Properties\<close>

subsection \<open>Results\<close>

text \<open>
  C1. Applied to a subject, the conjunction of \<open>a\<close> and \<open>b\<close> returns the boolean AND of
  the result of \<open>a\<close> on the subject and the result of \<open>b\<close> on the subject. Both receive
  the same object by reference, \<open>a\<close> first: where \<open>a\<close> leaves it as it is, as the
  \<^verbatim>\<open>const\<close> of the parameter asks, this is the result of \<open>b\<close> on \<open>s\<close>; in general it is
  the result of \<open>b\<close> on the subject as \<open>a\<close> has left it.
\<close>

theorem conjunction_result:
  "result (invoke (Conjunction a b) s)
     = (result (invoke a s) \<and> result (invoke b (subject (invoke a s))))
   \<and> (subject (invoke a s) = s \<longrightarrow>
        result (invoke (Conjunction a b) s) = (result (invoke a s) \<and> result (invoke b s)))"
  by (simp add: Let_def)

theorem conjunction_result_witness:
  "subject (invoke is_even 4) = 4
   \<and> result (invoke (Conjunction is_even is_positive) 4)
   \<and> result (invoke (Conjunction is_even is_positive) 4)
       = (result (invoke is_even 4) \<and> result (invoke is_positive 4))"
  using conjunction_result [of is_even is_positive 4]
  by (simp add: is_even_def is_positive_def)

text \<open>
  C2. Applied to a subject, the disjunction of \<open>a\<close> and \<open>b\<close> returns the boolean OR of
  the result of \<open>a\<close> on the subject and the result of \<open>b\<close> on the subject, in the same
  sense.
\<close>

theorem disjunction_result:
  "result (invoke (Disjunction a b) s)
     = (result (invoke a s) \<or> result (invoke b (subject (invoke a s))))
   \<and> (subject (invoke a s) = s \<longrightarrow>
        result (invoke (Disjunction a b) s) = (result (invoke a s) \<or> result (invoke b s)))"
  by (simp add: Let_def)

theorem disjunction_result_witness:
  "subject (invoke is_even (- 3)) = - 3
   \<and> \<not> result (invoke (Disjunction is_even is_positive) (- 3))
   \<and> result (invoke (Disjunction is_even is_positive) (- 3))
       = (result (invoke is_even (- 3)) \<or> result (invoke is_positive (- 3)))"
  using disjunction_result [of is_even is_positive "- 3"]
  by (simp add: is_even_def is_positive_def)

text \<open>
  C3. Applied to a subject, the negation of \<open>a\<close> returns the complement of the result of
  \<open>a\<close> on the subject.
\<close>

theorem negation_result:
  "result (invoke (Negation a) s) = (\<not> result (invoke a s))"
  by (simp add: Let_def)

text \<open>
  C7. De Morgan: the negation of the disjunction of \<open>a\<close> and \<open>b\<close> returns, on every
  subject, the boolean that the conjunction of the negations of \<open>a\<close> and \<open>b\<close> returns.
\<close>

theorem de_morgan:
  "result (invoke (Negation (Disjunction a b)) s)
     = result (invoke (Conjunction (Negation a) (Negation b)) s)"
  by (simp add: Let_def)

text \<open>
  C8. Double negation: the negation of the negation of \<open>a\<close> returns, on every subject,
  the boolean that \<open>a\<close> returns.
\<close>

theorem double_negation:
  "result (invoke (Negation (Negation a)) s) = result (invoke a s)"
  by (simp add: Let_def)

subsection \<open>Order of evaluation\<close>

text \<open>
  C4. Evaluation is left to right and short-circuiting. The applications that a conjunction
  or a disjunction makes are those of its first member, applied to the subject as given,
  followed by those of its second member if the first result has not decided, and by nothing
  otherwise. So when \<open>a\<close> returns false the conjunction never applies \<open>b\<close>, and when \<open>a\<close>
  returns true the disjunction never applies \<open>b\<close>: no application of \<^verbatim>\<open>m_p2\<close> takes
  place and the object \<open>b\<close> is as it was. When \<open>b\<close> is applied, \<open>a\<close> has been applied
  before it.
\<close>

theorem short_circuit_left_to_right:
  "calls (invoke (Conjunction a b) s)
     = enter M_p1 (invoke a s)
       @ (if result (invoke a s) then enter M_p2 (invoke b (subject (invoke a s))) else [])
   \<and> calls (invoke (Disjunction a b) s)
     = enter M_p1 (invoke a s)
       @ (if result (invoke a s) then [] else enter M_p2 (invoke b (subject (invoke a s))))
   \<and> (\<not> result (invoke a s) \<longrightarrow>
        [M_p2] \<notin> set (calls (invoke (Conjunction a b) s))
        \<and> m_p2 (self (invoke (Conjunction a b) s)) = b)
   \<and> (result (invoke a s) \<longrightarrow>
        [M_p2] \<notin> set (calls (invoke (Disjunction a b) s))
        \<and> m_p2 (self (invoke (Disjunction a b) s)) = b)"
  by (auto simp add: Let_def enter_def)

theorem short_circuit_left_to_right_witness:
  "\<not> result (invoke is_even 3)
   \<and> calls (invoke (Conjunction is_even (counting 0)) 3) = [[M_p1]]
   \<and> [M_p2] \<notin> set (calls (invoke (Conjunction is_even (counting 0)) 3))
   \<and> m_p2 (self (invoke (Conjunction is_even (counting 0)) 3)) = counting 0
   \<and> result (invoke is_even 4)
   \<and> calls (invoke (Disjunction is_even (counting 0)) 4) = [[M_p1]]
   \<and> [M_p2] \<notin> set (calls (invoke (Disjunction is_even (counting 0)) 4))
   \<and> m_p2 (self (invoke (Disjunction is_even (counting 0)) 4)) = counting 0
   \<and> calls (invoke (Conjunction is_even (counting 0)) 4) = [[M_p1], [M_p2]]
   \<and> m_p2 (self (invoke (Conjunction is_even (counting 0)) 4)) = counting 1"
  using short_circuit_left_to_right [of is_even "counting 0" 3]
    short_circuit_left_to_right [of is_even "counting 0" 4]
  by (simp add: is_even_def counting_def enter_def)

subsection \<open>Frame\<close>

text \<open>
  C10. Applying a pattern, in particular a conjunction, a disjunction or a negation, to a
  subject leaves the pattern with its members and the subject as they were, provided that
  the application operators of the patterns at its leaves do so.
\<close>

theorem invoke_read_only:
  "read_only p s \<Longrightarrow> self (invoke p s) = p \<and> subject (invoke p s) = s"
  by (induction p) (auto simp: Let_def split: prod.splits)

theorem invoke_read_only_witness:
  "read_only (Conjunction is_even (Negation is_positive)) 4
   \<and> self (invoke (Conjunction is_even (Negation is_positive)) 4)
       = Conjunction is_even (Negation is_positive)
   \<and> subject (invoke (Conjunction is_even (Negation is_positive)) 4) = 4"
  using invoke_read_only [of "Conjunction is_even (Negation is_positive)" 4]
  by (simp add: is_even_def is_positive_def)

subsection \<open>Accepted types\<close>


text \<open>
  C6, as stated, does not hold: from two patterns that accept different types for the
  subject type \<^verbatim>\<open>int\<close> the operators build a conjunction and a disjunction; applied to
  a subject these return a boolean; and it is only the query of their accepted type for
  \<^verbatim>\<open>int\<close> that is rejected.
\<close>

theorem construction_counterexample:
  "accepted_type_for is_even ''int'' = Inr ''int''
   \<and> accepted_type_for as_double ''int'' = Inr ''double''
   \<and> operator_and Inr (Pattern is_even) (Pattern as_double)
       = Inr (Conjunction is_even as_double)
   \<and> operator_or Inr (Pattern is_even) (Pattern as_double)
       = Inr (Disjunction is_even as_double)
   \<and> result (invoke (Conjunction is_even as_double) 4)
   \<and> result (invoke (Disjunction is_even as_double) 3)
   \<and> accepted_type_for (Conjunction is_even as_double) ''int''
       = Inl (Static_assert ''The type accepted by patterns in conjunction must be the same'')
   \<and> accepted_type_for (Disjunction is_even as_double) ''int''
       = Inl (Static_assert ''The type accepted by patterns in disjunction must be the same'')"
  by (simp add: is_even_def as_double_def operator_and_def operator_or_def
      either_is_pattern_def)

text \<open>
  C6, amended. The query of the accepted type of a conjunction or a disjunction for a
  subject type \<open>S\<close> is rejected when the accepted types of its two arguments for \<open>S\<close>
  differ, by the assertion of the type function and with its message when both are defined.
  Once a tree of combinators is built, applying it to a subject cannot fail and returns a
  boolean: the combinators have no error path of their own, so that the application
  returns, and returns what \<open>invoke\<close> does, whenever the application operators of the
  patterns at its leaves return.
\<close>

lemma invoke_or_throw_returns:
  "leaves_return throws p \<Longrightarrow> invoke_or_throw throws p s = Some (invoke p s)"
  by (induction p arbitrary: s) (simp_all add: Let_def)

theorem accepted_type_mismatch:
  "(accepted_type_for a S \<noteq> accepted_type_for b S \<longrightarrow>
        isl (accepted_type_for (Conjunction a b) S)
        \<and> isl (accepted_type_for (Disjunction a b) S))
   \<and> (accepted_type_for a S = Inr t1 \<and> accepted_type_for b S = Inr t2 \<and> t1 \<noteq> t2 \<longrightarrow>
        accepted_type_for (Conjunction a b) S
          = Inl (Static_assert
              ''The type accepted by patterns in conjunction must be the same'')
        \<and> accepted_type_for (Disjunction a b) S
          = Inl (Static_assert
              ''The type accepted by patterns in disjunction must be the same''))
   \<and> (leaves_return throws p \<longrightarrow>
        invoke_or_throw throws p s = Some (invoke p s)
        \<and> map_option result (invoke_or_throw throws p s) = Some (result (invoke p s)))"
proof -
  have "isl (accepted_type_for (Conjunction a b) S) \<and> isl (accepted_type_for (Disjunction a b) S)"
    if "accepted_type_for a S \<noteq> accepted_type_for b S"
    using that by (auto split: sum.splits)
  moreover have "leaves_return throws p \<longrightarrow>
        invoke_or_throw throws p s = Some (invoke p s)
        \<and> map_option result (invoke_or_throw throws p s) = Some (result (invoke p s))"
    by (simp add: invoke_or_throw_returns)
  ultimately show ?thesis
    by simp
qed

theorem accepted_type_mismatch_witness:
  "accepted_type_for is_even ''int'' = Inr ''int''
   \<and> accepted_type_for as_double ''int'' = Inr ''double''
   \<and> ''int'' \<noteq> ''double''
   \<and> accepted_type_for (Conjunction is_even as_double) ''int''
       = Inl (Static_assert ''The type accepted by patterns in conjunction must be the same'')
   \<and> accepted_type_for (Disjunction is_even as_double) ''int''
       = Inl (Static_assert ''The type accepted by patterns in disjunction must be the same'')
   \<and> leaves_return (\<lambda>c d s. d = 7) (Conjunction is_even as_double)
   \<and> map_option result (invoke_or_throw (\<lambda>c d s. d = 7) (Conjunction is_even as_double) 4)
       = Some True
   \<and> invoke_or_throw (\<lambda>c d s. d = 7) (Conjunction is_even (counting 7)) 4 = None
   \<and> map_option result (invoke_or_throw (\<lambda>c d s. d = 7) (Conjunction is_even (counting 7)) 3)
       = Some False"
  using accepted_type_mismatch [of is_even "''int''" as_double "''int''" "''double''"
      "\<lambda>c d s. d = 7" "Conjunction is_even as_double" 4]
  by (simp add: is_even_def as_double_def counting_def)

subsection \<open>The composition operators\<close>

text \<open>
  C9. When at least one of two operands is a pattern, the logical-and operator returns the
  conjunction of the normalised operands and the logical-or operator their disjunction;
  the logical-not operator, on a pattern, returns the negation of the normalised operand.
  Normalising leaves a pattern as it is and lifts a plain value into the equality pattern
  that wraps it, which accepts exactly the subjects equal to that value.
\<close>

theorem operators_build_combinators:
  "(either_is_pattern p1 p2 \<longrightarrow>
      operator_and acc p1 p2 = Inr (Conjunction (filter_op acc p1) (filter_op acc p2))
      \<and> operator_or acc p1 p2 = Inr (Disjunction (filter_op acc p1) (filter_op acc p2)))
   \<and> (is_pattern p1 \<longrightarrow> operator_not acc p1 = Inr (Negation (filter_op acc p1)))
   \<and> filter_op acc (Pattern p) = p
   \<and> filter_op acc (Plain v) = Value acc v
   \<and> result (invoke (Value acc v) s) = (v = s)"
  by (simp add: operator_and_def operator_or_def operator_not_def)

theorem operators_build_combinators_witness:
  "either_is_pattern (Pattern is_even) (Plain 4)
   \<and> operator_and Inr (Pattern is_even) (Plain 4) = Inr (Conjunction is_even (Value Inr 4))
   \<and> operator_or Inr (Pattern is_even) (Plain 4) = Inr (Disjunction is_even (Value Inr 4))
   \<and> is_pattern (Pattern is_even)
   \<and> operator_not Inr (Pattern is_even) = Inr (Negation is_even)"
  using operators_build_combinators [of "Pattern is_even" "Plain 4" Inr]
  by (simp add: either_is_pattern_def)

end
